theory Spec2Isabelle
  imports Complex_Main "HOL-Library.Multiset"
begin

section \<open>Data model (src/unnamed/part_000, src/src/lib/distributionAlgorithm.ts)\<close>

text \<open>
  The fields of type \<^verbatim>\<open>number\<close> hold finite values and are modelled by \<^typ>\<open>real\<close>; sums
  and products of them are the exact ones unless said otherwise.  Two effects of double
  precision arithmetic are modelled where a claim depends on them: in
  \<open>suggestOptimalAgent\<close>, whose result changes shape when a sum overflows to
  \<^verbatim>\<open>Infinity\<close>, every result is a \<open>number\<close> (finite, infinite or NaN); and the score
  arithmetic of \<open>calculateAgentScores\<close> has a second model with the rounding of every
  operation.  A nullable field \<^verbatim>\<open>T | null\<close> is a \<^typ>\<open>'a option\<close>.

  Records share one name space for their fields, so the fields \<^verbatim>\<open>id\<close>, \<^verbatim>\<open>nom\<close> and
  \<^verbatim>\<open>created_at\<close>, which both \<^verbatim>\<open>Agent\<close> and \<^verbatim>\<open>Appartement\<close> have, carry the prefix
  \<open>ag_\<close> or \<open>ap_\<close>, and the field \<^verbatim>\<open>agent_id\<close> of \<^verbatim>\<open>DistributionScore\<close> is \<open>ds_agent_id\<close>.
\<close>

datatype statut = disponible | assigne | inactif

record Agent =
  ag_id :: string
  ag_nom :: string
  email :: string
  secteur_preference :: "string option"
  charge_actuelle :: real
  ag_created_at :: string

record Appartement =
  ap_id :: string
  ap_nom :: string
  adresse :: string
  secteur :: string
  nombre_chambres :: real
  surface :: real
  distance_base :: real
  latitude :: "real option"
  longitude :: "real option"
  difficulte :: real
  agent_id :: "string option"
  statut :: statut
  ap_created_at :: string
  updated_at :: string

record DistributionScore =
  ds_agent_id :: string
  total_chambres :: real
  total_surface :: real
  total_distance :: real
  total_difficulte :: real
  nombre_appartements :: real
  score_equilibre :: real

text \<open>
  JavaScript truthiness of a value of type \<^verbatim>\<open>string | null\<close>: \<^verbatim>\<open>null\<close> and the empty
  string are falsy, every other string is truthy.  The source tests the assigned-worker
  reference this way (\<^verbatim>\<open>appt.agent_id && ...\<close>, \<^verbatim>\<open>!appt.agent_id\<close>, \<^verbatim>\<open>!agentId\<close>).
\<close>

definition truthy :: "string option \<Rightarrow> bool" where
  "truthy v = (case v of None \<Rightarrow> False | Some s \<Rightarrow> s \<noteq> [])"

text \<open>
  A JavaScript \<^verbatim>\<open>Map<string, V>\<close> is an association list in insertion order with
  pairwise distinct keys.  \<^verbatim>\<open>set\<close> replaces the value of a key that is present, in place,
  and appends a new key at the end; \<^verbatim>\<open>get\<close> is \<^const>\<open>map_of\<close>; \<^verbatim>\<open>values()\<close> lists the
  values in insertion order.
\<close>

type_synonym 'v jsmap = "(string \<times> 'v) list"

fun Map_set :: "string \<Rightarrow> 'v \<Rightarrow> 'v jsmap \<Rightarrow> 'v jsmap" where
  "Map_set k v [] = [(k, v)]"
| "Map_set k v (p # ps) = (if fst p = k then (k, v) # ps else p # Map_set k v ps)"

definition Map_has :: "string \<Rightarrow> 'v jsmap \<Rightarrow> bool" where
  "Map_has k m = (map_of m k \<noteq> None)"

definition Map_values :: "'v jsmap \<Rightarrow> 'v list" where
  "Map_values m = map snd m"

text \<open>
  Mutating the object stored under a key (\<^verbatim>\<open>const score = scores.get(k)!; score.f += ...\<close>):
  the entry of the first (and, in a map, only) occurrence of the key is replaced by the
  mutated object.
\<close>

fun Map_mutate :: "string \<Rightarrow> ('v \<Rightarrow> 'v) \<Rightarrow> 'v jsmap \<Rightarrow> 'v jsmap" where
  "Map_mutate k f [] = []"
| "Map_mutate k f (p # ps) =
     (if fst p = k then (k, f (snd p)) # ps else p # Map_mutate k f ps)"

section \<open>WorkloadScorer: calculateWorkloadScore\<close>

definition calculateWorkloadScore :: "Appartement \<Rightarrow> real" where
  "calculateWorkloadScore appartement =
     (let chambreWeight = 10; surfaceWeight = 0.5; distanceWeight = 2; difficulteWeight = 15
      in nombre_chambres appartement * chambreWeight
         + surface appartement * surfaceWeight
         + distance_base appartement * distanceWeight
         + difficulte appartement * difficulteWeight)"

section \<open>LoadAggregator: calculateAgentScores\<close>

text \<open>
  \<^verbatim>\<open>AppartementWithAgent\<close> adds an optional \<^verbatim>\<open>agent\<close> field that no function here reads, so
  the units are plain \<open>Appartement\<close> records.  Every summary object is created by the
  first pass and reachable from one key only, so the map holds the objects themselves.
\<close>

definition zero_score :: "string \<Rightarrow> DistributionScore" where
  "zero_score k =
     \<lparr>ds_agent_id = k, total_chambres = 0, total_surface = 0, total_distance = 0,
      total_difficulte = 0, nombre_appartements = 0, score_equilibre = 0\<rparr>"

text \<open>First pass: \<^verbatim>\<open>agents.forEach((agent) => scores.set(agent.id, {...zeros}))\<close>.\<close>

definition init_scores :: "Agent list \<Rightarrow> DistributionScore jsmap" where
  "init_scores agents =
     fold (\<lambda>agent scores. Map_set (ag_id agent) (zero_score (ag_id agent)) scores) agents []"

text \<open>
  Second pass, the body of the \<^verbatim>\<open>if\<close>: the four totals and the count are accumulated,
  and \<^verbatim>\<open>score_equilibre\<close> is overwritten with the score of the unit at hand.
\<close>

definition accumulate :: "Appartement \<Rightarrow> DistributionScore \<Rightarrow> DistributionScore" where
  "accumulate appt score =
     score\<lparr>total_chambres := total_chambres score + nombre_chambres appt,
           total_surface := total_surface score + surface appt,
           total_distance := total_distance score + distance_base appt,
           total_difficulte := total_difficulte score + difficulte appt,
           nombre_appartements := nombre_appartements score + 1,
           score_equilibre := calculateWorkloadScore appt\<rparr>"

definition count_appt :: "Appartement \<Rightarrow> DistributionScore jsmap \<Rightarrow> DistributionScore jsmap" where
  "count_appt appt scores =
     (case agent_id appt of
        None \<Rightarrow> scores
      | Some k \<Rightarrow>
          if k \<noteq> [] \<and> Map_has k scores then Map_mutate k (accumulate appt) scores
          else scores)"

text \<open>Third pass: every summary's \<^verbatim>\<open>score_equilibre\<close> is recomputed from its totals.\<close>

definition rescore :: "DistributionScore \<Rightarrow> DistributionScore" where
  "rescore score =
     (let chambreWeight = 10; surfaceWeight = 0.5; distanceWeight = 2; difficulteWeight = 15
      in score\<lparr>score_equilibre :=
                  total_chambres score * chambreWeight
                  + total_surface score * surfaceWeight
                  + total_distance score * distanceWeight
                  + total_difficulte score * difficulteWeight\<rparr>)"

definition calculateAgentScores :: "Agent list \<Rightarrow> Appartement list \<Rightarrow> DistributionScore jsmap" where
  "calculateAgentScores agents appartements =
     map (\<lambda>(k, score). (k, rescore score)) (fold count_appt appartements (init_scores agents))"

section \<open>The score arithmetic with the rounding of each operation\<close>

text \<open>
  The same four functions with the rounding of double precision arithmetic: every sum
  and product of the source is followed by \<open>rnd\<close>, which maps the exact result to the
  number the machine stores.  The weights 10, 0.5, 2 and 15 are stored exactly.  With
  the identity for \<open>rnd\<close> these are the exact functions above; \<open>binary64\<close> below is the
  rounding of the source's \<^verbatim>\<open>number\<close> type.
\<close>

definition calculateWorkloadScore_in :: "(real \<Rightarrow> real) \<Rightarrow> Appartement \<Rightarrow> real" where
  "calculateWorkloadScore_in rnd appt =
     (let chambreWeight = 10; surfaceWeight = 0.5; distanceWeight = 2; difficulteWeight = 15
      in rnd (rnd (rnd (rnd (nombre_chambres appt * chambreWeight)
                        + rnd (surface appt * surfaceWeight))
                   + rnd (distance_base appt * distanceWeight))
              + rnd (difficulte appt * difficulteWeight)))"

definition accumulate_in ::
  "(real \<Rightarrow> real) \<Rightarrow> Appartement \<Rightarrow> DistributionScore \<Rightarrow> DistributionScore" where
  "accumulate_in rnd appt score =
     score\<lparr>total_chambres := rnd (total_chambres score + nombre_chambres appt),
           total_surface := rnd (total_surface score + surface appt),
           total_distance := rnd (total_distance score + distance_base appt),
           total_difficulte := rnd (total_difficulte score + difficulte appt),
           nombre_appartements := rnd (nombre_appartements score + 1),
           score_equilibre := calculateWorkloadScore_in rnd appt\<rparr>"

definition count_appt_in ::
  "(real \<Rightarrow> real) \<Rightarrow> Appartement \<Rightarrow> DistributionScore jsmap \<Rightarrow> DistributionScore jsmap" where
  "count_appt_in rnd appt scores =
     (case agent_id appt of
        None \<Rightarrow> scores
      | Some k \<Rightarrow>
          if k \<noteq> [] \<and> Map_has k scores then Map_mutate k (accumulate_in rnd appt) scores
          else scores)"

definition rescore_in :: "(real \<Rightarrow> real) \<Rightarrow> DistributionScore \<Rightarrow> DistributionScore" where
  "rescore_in rnd score =
     (let chambreWeight = 10; surfaceWeight = 0.5; distanceWeight = 2; difficulteWeight = 15
      in score\<lparr>score_equilibre :=
                  rnd (rnd (rnd (rnd (total_chambres score * chambreWeight)
                                 + rnd (total_surface score * surfaceWeight))
                            + rnd (total_distance score * distanceWeight))
                       + rnd (total_difficulte score * difficulteWeight))\<rparr>)"

definition calculateAgentScores_in ::
  "(real \<Rightarrow> real) \<Rightarrow> Agent list \<Rightarrow> Appartement list \<Rightarrow> DistributionScore jsmap" where
  "calculateAgentScores_in rnd agents appartements =
     map (\<lambda>(k, score). (k, rescore_in rnd score))
       (fold (count_appt_in rnd) appartements (init_scores agents))"

text \<open>
  Round to nearest, ties to even, on a significand of 53 bits: \<open>\<bar>x\<bar>\<close> is scaled by a power
  of two into \<open>[2^52, 2^53)\<close>, rounded to an integer and scaled back.  Overflow and the
  subnormal range are not modelled.
\<close>

definition round_half_even :: "real \<Rightarrow> int" where
  "round_half_even q =
     (let f = \<lfloor>q\<rfloor>; r = q - of_int f
      in if r < 1 / 2 then f else if r > 1 / 2 then f + 1 else if even f then f else f + 1)"

fun scale_up :: "nat \<Rightarrow> real \<Rightarrow> nat" where
  "scale_up 0 a = 0"
| "scale_up (Suc fuel) a = (if a < 2 ^ 52 then Suc (scale_up fuel (2 * a)) else 0)"

fun scale_down :: "nat \<Rightarrow> real \<Rightarrow> nat" where
  "scale_down 0 a = 0"
| "scale_down (Suc fuel) a = (if a \<ge> 2 ^ 53 then Suc (scale_down fuel (a / 2)) else 0)"

definition binary64 :: "real \<Rightarrow> real" where
  "binary64 x =
     (if x = 0 then 0
      else
        (let a = \<bar>x\<bar>; up = scale_up 1074 a; down = scale_down 1024 a;
             m = round_half_even (a * 2 ^ up / 2 ^ down)
         in sgn x * of_int m * 2 ^ down / 2 ^ up))"

section \<open>Values of double precision arithmetic\<close>

text \<open>
  The result of an arithmetic operation is a finite number, \<^verbatim>\<open>Infinity\<close>, \<^verbatim>\<open>-Infinity\<close> or
  \<^verbatim>\<open>NaN\<close>.  A finite exact result whose magnitude reaches \<open>2^1024 - 2^970\<close> (the least
  magnitude that rounds to infinity) overflows; the rounding of the results that stay in
  range is not modelled here.  Zero carries no sign.
\<close>

datatype number = Fin real | PosInf | NegInf | NaN

definition overflow :: "real \<Rightarrow> number" where
  "overflow r =
     (if r \<ge> 2 ^ 1024 - 2 ^ 970 then PosInf
      else if r \<le> - (2 ^ 1024 - 2 ^ 970) then NegInf
      else Fin r)"

fun nadd :: "number \<Rightarrow> number \<Rightarrow> number" where
  "nadd (Fin a) (Fin b) = overflow (a + b)"
| "nadd NaN y = NaN"
| "nadd x NaN = NaN"
| "nadd PosInf NegInf = NaN"
| "nadd NegInf PosInf = NaN"
| "nadd PosInf y = PosInf"
| "nadd x PosInf = PosInf"
| "nadd NegInf y = NegInf"
| "nadd x NegInf = NegInf"

fun nneg :: "number \<Rightarrow> number" where
  "nneg (Fin a) = Fin (- a)"
| "nneg PosInf = NegInf"
| "nneg NegInf = PosInf"
| "nneg NaN = NaN"

definition nsub :: "number \<Rightarrow> number \<Rightarrow> number" where
  "nsub x y = nadd x (nneg y)"

text \<open>Division by a count (\<^verbatim>\<open>agents.length\<close>, a non-negative integer).\<close>

fun ndiv_count :: "number \<Rightarrow> nat \<Rightarrow> number" where
  "ndiv_count (Fin a) n =
     (if n = 0 then (if a = 0 then NaN else if a > 0 then PosInf else NegInf)
      else Fin (a / real n))"
| "ndiv_count PosInf n = PosInf"
| "ndiv_count NegInf n = NegInf"
| "ndiv_count NaN n = NaN"

fun nabs :: "number \<Rightarrow> number" where
  "nabs (Fin a) = Fin \<bar>a\<bar>"
| "nabs PosInf = PosInf"
| "nabs NegInf = PosInf"
| "nabs NaN = NaN"

text \<open>The comparison \<^verbatim>\<open>x < y\<close>: false as soon as one side is \<^verbatim>\<open>NaN\<close>.\<close>

fun nlt :: "number \<Rightarrow> number \<Rightarrow> bool" where
  "nlt (Fin a) (Fin b) = (a < b)"
| "nlt NaN y = False"
| "nlt x NaN = False"
| "nlt x NegInf = False"
| "nlt PosInf y = False"
| "nlt NegInf y = True"
| "nlt x PosInf = True"

section \<open>AssignmentAdvisor: suggestOptimalAgent\<close>

text \<open>\<^verbatim>\<open>currentScores.get(agent.id)?.score_equilibre || 0\<close>\<close>

definition agentScore :: "DistributionScore jsmap \<Rightarrow> Agent \<Rightarrow> real" where
  "agentScore currentScores agent =
     (case map_of currentScores (ag_id agent) of
        None \<Rightarrow> 0
      | Some s \<Rightarrow> if score_equilibre s = 0 then 0 else score_equilibre s)"

text \<open>
  \<^verbatim>\<open>Array.from(currentScores.values()).reduce((sum, s) => sum + s.score_equilibre, 0)
     / agents.length\<close>
\<close>

definition avgScore :: "Agent list \<Rightarrow> DistributionScore jsmap \<Rightarrow> number" where
  "avgScore agents currentScores =
     ndiv_count
       (foldl (\<lambda>sum s. nadd sum (Fin (score_equilibre s))) (Fin 0) (Map_values currentScores))
       (length agents)"

definition scoreDiff :: "Appartement \<Rightarrow> Agent list \<Rightarrow> DistributionScore jsmap \<Rightarrow> Agent \<Rightarrow> number" where
  "scoreDiff appartement agents currentScores agent =
     (let apptScore = calculateWorkloadScore appartement;
          secteurBonus = (if secteur_preference agent = Some (secteur appartement) then - 20 else 0);
          newScore = nadd (nadd (Fin (agentScore currentScores agent)) (Fin apptScore))
                       (Fin secteurBonus)
      in nabs (nsub newScore (avgScore agents currentScores)))"

text \<open>
  One round of \<^verbatim>\<open>agents.forEach\<close>; the state is \<open>(bestAgent, lowestScoreDiff)\<close>, started at
  \<open>(null, Infinity)\<close>.
\<close>

definition suggest_step ::
  "Appartement \<Rightarrow> Agent list \<Rightarrow> DistributionScore jsmap \<Rightarrow> Agent
     \<Rightarrow> string option \<times> number \<Rightarrow> string option \<times> number" where
  "suggest_step appartement agents currentScores agent st =
     (let d = scoreDiff appartement agents currentScores agent
      in if nlt d (snd st) then (Some (ag_id agent), d) else st)"

definition suggestOptimalAgent ::
  "Appartement \<Rightarrow> Agent list \<Rightarrow> DistributionScore jsmap \<Rightarrow> string option" where
  "suggestOptimalAgent appartement agents currentScores =
     (if length agents = 0 then None
      else fst (fold (suggest_step appartement agents currentScores) agents (None, PosInf)))"

section \<open>BalanceMetric: calculateEquilibreGlobal\<close>

definition calculateEquilibreGlobal :: "DistributionScore jsmap \<Rightarrow> real" where
  "calculateEquilibreGlobal scores =
     (let scoreValues = map score_equilibre (Map_values scores)
      in if length scoreValues = 0 then 0
         else
           let avg = foldl (\<lambda>sum val. sum + val) 0 scoreValues / real (length scoreValues);
               variance =
                 foldl (\<lambda>sum val. sum + (val - avg) ^ 2) 0 scoreValues
                   / real (length scoreValues);
               stdDev = sqrt variance;
               coefficientOfVariation = (if avg > 0 then (stdDev / avg) * 100 else 0)
           in max 0 (100 - coefficientOfVariation))"

section \<open>GeoDistance and RouteBuilder: calculateDistanceKm, buildAgentRoute\<close>

record LatLng =
  lat :: real
  lng :: real

text \<open>
  \<^verbatim>\<open>Math.atan2(y, x)\<close> on the reals: the angle of the point \<open>(x, y)\<close> in \<open>(-\<pi>, \<pi>]\<close>,
  with \<^verbatim>\<open>atan2(0, 0) = 0\<close>.
\<close>

definition atan2 :: "real \<Rightarrow> real \<Rightarrow> real" where
  "atan2 y x =
     (if x > 0 then arctan (y / x)
      else if x < 0 then (if y \<ge> 0 then arctan (y / x) + pi else arctan (y / x) - pi)
      else if y > 0 then pi / 2
      else if y < 0 then - (pi / 2)
      else 0)"

text \<open>
  The haversine formula as the source writes it, in exact arithmetic.  There the
  quantity \<open>x\<close> lies in \<open>[0, 1]\<close> and both square roots are real.  The source computes
  \<open>x\<close> in double precision, where rounding can carry it above 1 near antipodal points;
  \<^verbatim>\<open>Math.sqrt(1 - x)\<close> is then \<^verbatim>\<open>NaN\<close>.  That case is outside this definition.
\<close>

definition calculateDistanceKm :: "LatLng \<Rightarrow> LatLng \<Rightarrow> real" where
  "calculateDistanceKm a b =
     (let R = 6371;
          dLat = ((lat b - lat a) * pi) / 180;
          dLng = ((lng b - lng a) * pi) / 180;
          lat1 = (lat a * pi) / 180;
          lat2 = (lat b * pi) / 180;
          x = sin (dLat / 2) ^ 2 + sin (dLng / 2) ^ 2 * cos lat1 * cos lat2;
          c = 2 * atan2 (sqrt x) (sqrt (1 - x))
      in R * c)"

record AgentRouteStep =
  appartement :: Appartement
  ordre :: nat
  distanceDepuisPrecedent :: real

record AgentRoute =
  agentId :: string
  totalDistance :: real
  etapes :: "AgentRouteStep list"

text \<open>
  \<^verbatim>\<open>{ latitude: appt.latitude!, longitude: appt.longitude! }\<close>: the non-null assertions
  are only ever applied to units that passed the coordinate filter.
\<close>

definition point_of :: "Appartement \<Rightarrow> LatLng" where
  "point_of appt = \<lparr>lat = the (latitude appt), lng = the (longitude appt)\<rparr>"

text \<open>\<^verbatim>\<open>currentPoint ? calculateDistanceKm(currentPoint, p) : 0\<close>\<close>

definition leg :: "LatLng option \<Rightarrow> LatLng \<Rightarrow> real" where
  "leg currentPoint p =
     (case currentPoint of None \<Rightarrow> 0 | Some c \<Rightarrow> calculateDistanceKm c p)"

text \<open>
  The inner \<^verbatim>\<open>remaining.forEach((appt, index) => ...)\<close>; the state is
  \<open>(bestIndex, bestDistance)\<close>, started at \<open>(0, Infinity)\<close>.
\<close>

definition nearest_step ::
  "LatLng option \<Rightarrow> nat \<times> Appartement \<Rightarrow> nat \<times> number \<Rightarrow> nat \<times> number" where
  "nearest_step currentPoint ia st =
     (let d = leg currentPoint (point_of (snd ia))
      in if nlt (Fin d) (snd st) then (fst ia, Fin d) else st)"

definition nearest :: "LatLng option \<Rightarrow> Appartement list \<Rightarrow> nat \<times> number" where
  "nearest currentPoint remaining =
     fold (nearest_step currentPoint) (zip [0 ..< length remaining] remaining) (0, PosInf)"

text \<open>
  The \<^verbatim>\<open>while (remaining.length > 0)\<close> loop.  Its state is the list of remaining units,
  the current point, the next rank (\<^verbatim>\<open>ordre\<close>), the running total (\<^verbatim>\<open>totalDistance\<close>)
  and the steps pushed so far (\<^verbatim>\<open>etapes\<close>);
  \<^verbatim>\<open>remaining.splice(bestIndex, 1)[0]\<close> takes the unit at \<open>bestIndex\<close> out of the list.
\<close>

function route_loop ::
  "Appartement list \<Rightarrow> LatLng option \<Rightarrow> nat \<Rightarrow> real \<Rightarrow> AgentRouteStep list
     \<Rightarrow> real \<times> AgentRouteStep list" where
  "route_loop remaining currentPoint rank acc steps =
     (if length remaining > 0 then
        (let bestIndex = fst (nearest currentPoint remaining);
             next = remaining ! bestIndex;
             d = leg currentPoint (point_of next)
         in route_loop (take bestIndex remaining @ drop (Suc bestIndex) remaining)
              (Some (point_of next)) (rank + 1) (acc + d)
              (steps @ [\<lparr>appartement = next, ordre = rank, distanceDepuisPrecedent = d\<rparr>]))
      else (acc, steps))"
  by pat_completeness auto

definition visitables :: "Appartement list \<Rightarrow> Appartement list" where
  "visitables appartements =
     filter (\<lambda>a. latitude a \<noteq> None \<and> longitude a \<noteq> None) appartements"

definition buildAgentRoute :: "string \<Rightarrow> Appartement list \<Rightarrow> LatLng option \<Rightarrow> AgentRoute" where
  "buildAgentRoute aid appartements base =
     (if length (visitables appartements) = 0
      then \<lparr>agentId = aid, totalDistance = 0, etapes = []\<rparr>
      else
        (let r = route_loop (visitables appartements) base 1 0 []
         in \<lparr>agentId = aid, totalDistance = fst r, etapes = snd r\<rparr>))"


section \<open>AutoDistributor: handleAutoDistribute (src/src/components/AppartementsList.tsx)\<close>

text \<open>
  The component keeps the summaries in its state \<^verbatim>\<open>scoreMap\<close>, a \<^verbatim>\<open>Map\<close> from worker id to
  a \<^verbatim>\<open>DistributionScore\<close> object.  Objects are shared by reference, so the map holds
  references into a store of objects.  \<^verbatim>\<open>new Map(scoreMap)\<close> builds a new map with the
  same keys and the same references; the handler never calls \<^verbatim>\<open>set\<close> on it, so the
  working map \<^verbatim>\<open>currentScores\<close> is the list of references of \<^verbatim>\<open>scoreMap\<close> itself, and
  what the handler mutates are the objects in the store.
\<close>

type_synonym ref = nat
type_synonym store = "ref \<Rightarrow> DistributionScore"

definition deref :: "store \<Rightarrow> ref jsmap \<Rightarrow> DistributionScore jsmap" where
  "deref h m = map (\<lambda>(k, r). (k, h r)) m"

datatype feedback_type = success | error

text \<open>
  The three messages of the handler's early exits: \<^verbatim>\<open>Ajoutez des agents avant de
  distribuer.\<close>, \<^verbatim>\<open>Aucun appartement disponible a assigner automatiquement.\<close> and
  \<^verbatim>\<open>Impossible de determiner une affectation optimale.\<close>
\<close>

datatype message = Ajoutez_des_agents | Aucun_appartement_disponible | Impossible_de_determiner

text \<open>
  The handler either stops with a feedback, or reaches its commit loop with the list
  \<^verbatim>\<open>assignments\<close>.  The commit loop itself (database updates through the storage client)
  is outside the model.
\<close>

datatype outcome = Feedback feedback_type message | Assignments "(Appartement \<times> string) list"

text \<open>The filter \<^verbatim>\<open>!appt.agent_id && appt.statut !== 'inactif'\<close>.\<close>

definition unassigned_of :: "Appartement list \<Rightarrow> Appartement list" where
  "unassigned_of appartements =
     filter (\<lambda>appt. \<not> truthy (agent_id appt) \<and> statut appt \<noteq> inactif) appartements"

text \<open>The mutation of the chosen worker's summary object (\<^verbatim>\<open>if (score) { ... }\<close>).\<close>

definition add_unit :: "Appartement \<Rightarrow> DistributionScore \<Rightarrow> DistributionScore" where
  "add_unit appt score =
     (let s = score\<lparr>total_chambres := total_chambres score + nombre_chambres appt,
                     total_surface := total_surface score + surface appt,
                     total_distance := total_distance score + distance_base appt,
                     total_difficulte := total_difficulte score + difficulte appt,
                     nombre_appartements := nombre_appartements score + 1\<rparr>
      in s\<lparr>score_equilibre :=
              total_chambres s * 10 + total_surface s * 0.5
              + total_distance s * 2 + total_difficulte s * 15\<rparr>)"

text \<open>
  One round of \<^verbatim>\<open>sorted.forEach\<close>; the state is the store and the list \<^verbatim>\<open>assignments\<close>.
  \<^verbatim>\<open>if (!agentId) return\<close> skips the unit when the advisor returns \<^verbatim>\<open>null\<close> or the empty
  string.
\<close>

definition simulate_step ::
  "Agent list \<Rightarrow> ref jsmap \<Rightarrow> Appartement
     \<Rightarrow> store \<times> (Appartement \<times> string) list \<Rightarrow> store \<times> (Appartement \<times> string) list" where
  "simulate_step agents currentScores appt st =
     (let h = fst st; assignments = snd st;
          suggestion = suggestOptimalAgent appt agents (deref h currentScores)
      in if \<not> truthy suggestion then st
         else
           (let aid = the suggestion;
                assignments' = assignments @ [(appt, aid)]
            in case map_of currentScores aid of
                 None \<Rightarrow> (h, assignments')
               | Some r \<Rightarrow> (h(r := add_unit appt (h r)), assignments')))"

text \<open>
  \<^verbatim>\<open>[...unassigned].sort((a, b) => calculateWorkloadScore(b) - calculateWorkloadScore(a))\<close>:
  a stable sort, descending by score, which is the stable insertion sort on the negated
  score.
\<close>

definition handleAutoDistribute ::
  "store \<Rightarrow> Agent list \<Rightarrow> Appartement list \<Rightarrow> ref jsmap \<Rightarrow> outcome \<times> store" where
  "handleAutoDistribute h agents appartements scoreMap =
     (if length agents = 0 then (Feedback error Ajoutez_des_agents, h)
      else
        (let unassigned = unassigned_of appartements
         in if length unassigned = 0 then (Feedback error Aucun_appartement_disponible, h)
            else
              (let currentScores = scoreMap;
                   sorted = sort_key (\<lambda>a. - calculateWorkloadScore a) unassigned;
                   st = fold (simulate_step agents currentScores) sorted (h, [])
               in if length (snd st) = 0 then (Feedback error Impossible_de_determiner, fst st)
                  else (Assignments (snd st), fst st))))"

section \<open>Notions the claims speak of\<close>

text \<open>
  The units counted for the worker \<open>k\<close> by the second pass of \<open>calculateAgentScores\<close>:
  those whose \<^verbatim>\<open>agent_id\<close> is truthy and is \<open>k\<close>.
\<close>

definition units_counted :: "string \<Rightarrow> Appartement list \<Rightarrow> Appartement list" where
  "units_counted k appartements =
     filter (\<lambda>appt. truthy (agent_id appt) \<and> agent_id appt = Some k) appartements"


section \<open>Concrete inputs for the witnesses and counterexamples\<close>

definition sample_agent :: "string \<Rightarrow> string option \<Rightarrow> Agent" where
  "sample_agent k pref =
     \<lparr>ag_id = k, ag_nom = ''agent'', email = ''agent@example.org'', secteur_preference = pref,
      charge_actuelle = 0, ag_created_at = ''2025-11-11''\<rparr>"

definition sample_unit ::
  "string \<Rightarrow> real \<Rightarrow> real \<Rightarrow> real \<Rightarrow> real \<Rightarrow> string option \<Rightarrow> statut \<Rightarrow> Appartement" where
  "sample_unit k rooms area km level worker st =
     \<lparr>ap_id = k, ap_nom = ''unit'', adresse = ''1 rue A'', secteur = ''nord'',
      nombre_chambres = rooms, surface = area, distance_base = km,
      latitude = None, longitude = None, difficulte = level, agent_id = worker,
      statut = st, ap_created_at = ''2025-11-11'', updated_at = ''2025-11-11''\<rparr>"

definition sample_score :: "string \<Rightarrow> real \<Rightarrow> DistributionScore" where
  "sample_score k v = (zero_score k)\<lparr>score_equilibre := v\<rparr>"


text \<open>A store in which every object is an all-zero summary.\<close>

definition idle_store :: store where
  "idle_store = (\<lambda>r. zero_score [])"

section \<open>Termination of the route loop\<close>

lemma nearest_fold_bound:
  "fst st < n \<Longrightarrow> list_all (\<lambda>ia. fst ia < n) ias
     \<Longrightarrow> fst (fold (nearest_step cp) ias st) < n"
  by (induction ias arbitrary: st) (simp_all add: nearest_step_def Let_def)

lemma nearest_in_range: "remaining \<noteq> [] \<Longrightarrow> fst (nearest cp remaining) < length remaining"
  unfolding nearest_def
  by (rule nearest_fold_bound) (auto simp: list_all_iff dest: set_zip_leftD)

lemma splice_shorter:
  assumes "remaining \<noteq> []"
  shows "length (take (fst (nearest cp remaining)) remaining
           @ drop (Suc (fst (nearest cp remaining))) remaining) < length remaining"
  using nearest_in_range [OF assms, of cp] assms by (simp add: min_def)

termination route_loop
  by (relation "measure (\<lambda>(remaining, _). length remaining)")
     (simp_all add: splice_shorter del: length_append length_take length_drop)

text \<open>The loop equation rewrites its own right-hand side, so it is applied by hand.\<close>

declare route_loop.simps [simp del]

section \<open>Properties of suggestOptimalAgent\<close>

lemma overflow_in_range: "\<bar>r\<bar> < 2 ^ 1024 - 2 ^ 970 \<Longrightarrow> overflow r = Fin r"
  by (auto simp: overflow_def)

lemma range_slack: "(2::real) * 2 ^ 1000 < 2 ^ 1024 - 2 ^ 970"
  by simp

lemma overflow_small: "\<bar>r\<bar> \<le> 2 * 2 ^ 1000 \<Longrightarrow> overflow r = Fin r"
  using range_slack by (intro overflow_in_range) linarith




lemma scoreDiff_not_NegInf: "scoreDiff ap ags cs a \<noteq> NegInf"
proof -
  have "nabs x \<noteq> NegInf" for x by (cases x) simp_all
  then show ?thesis by (simp add: scoreDiff_def Let_def)
qed

















section \<open>Properties of the map operations and of calculateAgentScores\<close>

lemma foldl_add_sum_list:
  "foldl (\<lambda>sum s. sum + f s) a xs = a + sum_list (map f xs)"
  for a :: real
  by (induction xs arbitrary: a) simp_all

lemma map_of_Map_set: "map_of (Map_set k v m) = (map_of m)(k \<mapsto> v)"
  by (induction m) (auto simp: fun_eq_iff)

lemma keys_Map_set: "fst ` set (Map_set k v m) = insert k (fst ` set m)"
  by (induction m) auto

lemma distinct_Map_set: "distinct (map fst m) \<Longrightarrow> distinct (map fst (Map_set k v m))"
  by (induction m) (auto simp: keys_Map_set)

lemma keys_Map_mutate: "map fst (Map_mutate k f m) = map fst m"
  by (induction m) auto

lemma map_of_Map_mutate:
  "map_of (Map_mutate k f m) k' = (if k' = k then map_option f (map_of m k) else map_of m k')"
  by (induction m) auto

lemma keys_count_appt: "map fst (count_appt a m) = map fst m"
  by (simp add: count_appt_def keys_Map_mutate split: option.splits)

lemma keys_fold_count_appt: "map fst (fold count_appt as m) = map fst m"
  by (induction as arbitrary: m) (simp_all add: keys_count_appt)

lemma keys_init_scores_aux:
  "fst ` set (fold (\<lambda>agent scores. Map_set (ag_id agent) (zero_score (ag_id agent)) scores) agents m)
     = ag_id ` set agents \<union> fst ` set m"
  by (induction agents arbitrary: m) (simp_all add: keys_Map_set)

lemma distinct_init_scores_aux:
  "distinct (map fst m) \<Longrightarrow>
   distinct (map fst (fold (\<lambda>agent scores. Map_set (ag_id agent) (zero_score (ag_id agent)) scores) agents m))"
  by (induction agents arbitrary: m) (auto simp: distinct_Map_set)

lemma map_of_init_scores_aux:
  "map_of (fold (\<lambda>agent scores. Map_set (ag_id agent) (zero_score (ag_id agent)) scores) agents m) k
     = (if k \<in> ag_id ` set agents then Some (zero_score k) else map_of m k)"
  by (induction agents arbitrary: m) (auto simp: map_of_Map_set)

lemma keys_init_scores: "fst ` set (init_scores agents) = ag_id ` set agents"
  unfolding init_scores_def by (simp add: keys_init_scores_aux)

lemma distinct_init_scores: "distinct (map fst (init_scores agents))"
  unfolding init_scores_def by (rule distinct_init_scores_aux) simp

lemma map_of_init_scores:
  "map_of (init_scores agents) k = (if k \<in> ag_id ` set agents then Some (zero_score k) else None)"
  unfolding init_scores_def by (simp add: map_of_init_scores_aux)

lemma keys_calculateAgentScores:
  "map fst (calculateAgentScores agents appts) = map fst (init_scores agents)"
  by (simp add: calculateAgentScores_def keys_fold_count_appt o_def split_def)

lemma sum_list_workload:
  "sum_list (map calculateWorkloadScore xs) =
     sum_list (map nombre_chambres xs) * 10 + sum_list (map surface xs) * 0.5
     + sum_list (map distance_base xs) * 2 + sum_list (map difficulte xs) * 15"
  by (induction xs) (simp_all add: calculateWorkloadScore_def algebra_simps)

lemma count_Map_mutate:
  "map_of m k \<noteq> None \<Longrightarrow>
   sum_list (map (\<lambda>p. nombre_appartements (snd p)) (Map_mutate k (accumulate a) m))
     = sum_list (map (\<lambda>p. nombre_appartements (snd p)) m) + 1"
  by (induction m) (auto simp: accumulate_def)

lemma count_count_appt:
  "sum_list (map (\<lambda>p. nombre_appartements (snd p)) (count_appt a m))
     = sum_list (map (\<lambda>p. nombre_appartements (snd p)) m)
       + (if (case agent_id a of None \<Rightarrow> False | Some k \<Rightarrow> k \<noteq> [] \<and> k \<in> fst ` set m)
          then 1 else 0)"
  by (auto simp: count_appt_def Map_has_def count_Map_mutate map_of_eq_None_iff
      split: option.splits)

lemma keyset_count_appt: "fst ` set (count_appt a m) = fst ` set m"
  using keys_count_appt [of a m] by (metis set_map)

lemma count_fold_count_appt:
  "fst ` set m = K \<Longrightarrow>
   sum_list (map (\<lambda>p. nombre_appartements (snd p)) (fold count_appt as m))
     = sum_list (map (\<lambda>p. nombre_appartements (snd p)) m)
       + real (length (filter (\<lambda>a. case agent_id a of None \<Rightarrow> False
                                    | Some k \<Rightarrow> k \<noteq> [] \<and> k \<in> K) as))"
proof (induction as arbitrary: m)
  case Nil
  show ?case by simp
next
  case (Cons a as)
  have "fst ` set (count_appt a m) = K"
    using Cons.prems by (simp add: keyset_count_appt)
  from Cons.IH [OF this] show ?case
    using Cons.prems by (auto simp: count_count_appt split: option.splits)
qed

lemma zero_Map_set:
  "list_all (\<lambda>p. snd p = zero_score (fst p)) m \<Longrightarrow>
   list_all (\<lambda>p. snd p = zero_score (fst p)) (Map_set k (zero_score k) m)"
  by (induction m) auto

lemma zero_init_scores_aux:
  "list_all (\<lambda>p. snd p = zero_score (fst p)) m \<Longrightarrow>
   list_all (\<lambda>p. snd p = zero_score (fst p))
     (fold (\<lambda>agent scores. Map_set (ag_id agent) (zero_score (ag_id agent)) scores) agents m)"
  by (induction agents arbitrary: m) (simp_all add: zero_Map_set)

lemma zero_init_scores: "list_all (\<lambda>p. snd p = zero_score (fst p)) (init_scores agents)"
  unfolding init_scores_def by (rule zero_init_scores_aux) simp

lemma count_all_zero:
  "list_all (\<lambda>p. snd p = zero_score (fst p)) m \<Longrightarrow>
   sum_list (map (\<lambda>p. nombre_appartements (snd p)) m) = 0"
  by (induction m) (simp_all add: zero_score_def)

lemma count_rescore:
  "sum_list (map (\<lambda>p. nombre_appartements (snd p)) (map (\<lambda>(k, score). (k, rescore score)) m))
     = sum_list (map (\<lambda>p. nombre_appartements (snd p)) m)"
  by (induction m) (auto simp: rescore_def)

text \<open>
  Claim C5.  The worker ids are uuid primary keys, never the empty string.  For every
  such worker list and every unit list, \<open>calculateAgentScores\<close> returns a map with exactly
  one summary per input worker id (its keys are pairwise distinct and are the ids of the
  input workers), and the sum of \<^verbatim>\<open>nombre_appartements\<close> over its summaries is the number of
  input units whose assigned-worker reference is non-null and is the id of some input
  worker.
\<close>

theorem calculateAgentScores_one_summary_per_worker:
  assumes "[] \<notin> ag_id ` set agents"
  shows "distinct (map fst (calculateAgentScores agents appartements))
   \<and> fst ` set (calculateAgentScores agents appartements) = ag_id ` set agents
   \<and> sum_list (map (\<lambda>p. nombre_appartements (snd p)) (calculateAgentScores agents appartements))
       = real (length (filter (\<lambda>a. case agent_id a of None \<Rightarrow> False
                                     | Some k \<Rightarrow> k \<in> ag_id ` set agents) appartements))"
proof -
  have k: "map fst (calculateAgentScores agents appartements) = map fst (init_scores agents)"
    by (rule keys_calculateAgentScores)
  have d: "distinct (map fst (calculateAgentScores agents appartements))"
    by (simp add: k distinct_init_scores)
  have "set (map fst (calculateAgentScores agents appartements)) = set (map fst (init_scores agents))"
    by (simp only: k)
  then have s: "fst ` set (calculateAgentScores agents appartements) = ag_id ` set agents"
    by (simp add: keys_init_scores)
  have same: "(\<lambda>a. case agent_id a of None \<Rightarrow> False
                     | Some k \<Rightarrow> k \<noteq> [] \<and> k \<in> ag_id ` set agents)
              = (\<lambda>a. case agent_id a of None \<Rightarrow> False | Some k \<Rightarrow> k \<in> ag_id ` set agents)"
    using assms by (force simp: fun_eq_iff image_iff split: option.splits)
  have c: "sum_list (map (\<lambda>p. nombre_appartements (snd p)) (calculateAgentScores agents appartements))
       = real (length (filter (\<lambda>a. case agent_id a of None \<Rightarrow> False
                                     | Some k \<Rightarrow> k \<noteq> [] \<and> k \<in> ag_id ` set agents) appartements))"
    unfolding calculateAgentScores_def count_rescore
    by (simp add: count_fold_count_appt [OF keys_init_scores] count_all_zero [OF zero_init_scores])
  from d s c show ?thesis unfolding same by simp
qed

theorem calculateAgentScores_one_summary_per_worker_witness:
  "map fst (calculateAgentScores [sample_agent ''w1'' None, sample_agent ''w2'' None]
      [sample_unit ''u1'' 2 50 5 3 (Some ''w1'') assigne,
       sample_unit ''u2'' 1 30 2 1 (Some ''w1'') assigne,
       sample_unit ''u3'' 4 90 9 5 (Some ''w9'') assigne,
       sample_unit ''u4'' 1 20 1 1 None disponible,
       sample_unit ''u5'' 3 70 4 2 (Some ''w2'') assigne]) = [''w1'', ''w2'']
   \<and> sum_list (map (\<lambda>p. nombre_appartements (snd p))
       (calculateAgentScores [sample_agent ''w1'' None, sample_agent ''w2'' None]
      [sample_unit ''u1'' 2 50 5 3 (Some ''w1'') assigne,
       sample_unit ''u2'' 1 30 2 1 (Some ''w1'') assigne,
       sample_unit ''u3'' 4 90 9 5 (Some ''w9'') assigne,
       sample_unit ''u4'' 1 20 1 1 None disponible,
       sample_unit ''u5'' 3 70 4 2 (Some ''w2'') assigne])) = 3"
proof -
  have h: "[] \<notin> ag_id ` set [sample_agent ''w1'' None, sample_agent ''w2'' None]"
    by (simp add: sample_agent_def)
  have k: "map fst (calculateAgentScores [sample_agent ''w1'' None, sample_agent ''w2'' None] us)
             = [''w1'', ''w2'']" for us
    by (simp add: keys_calculateAgentScores init_scores_def sample_agent_def)
  from calculateAgentScores_one_summary_per_worker [OF h] k show ?thesis
    by (simp add: sample_agent_def sample_unit_def)
qed

section \<open>Evaluating the rounding\<close>

lemma scale_up_numeral:
  "scale_up (numeral k) a = (if a < 2 ^ 52 then Suc (scale_up (pred_numeral k) (2 * a)) else 0)"
  by (simp add: numeral_eq_Suc)

lemma scale_down_numeral:
  "scale_down (numeral k) a = (if a \<ge> 2 ^ 53 then Suc (scale_down (pred_numeral k) (a / 2)) else 0)"
  by (simp add: numeral_eq_Suc)

lemma round_half_even_eval:
  "round_half_even q =
     (if q - of_int \<lfloor>q\<rfloor> < 1 / 2 then \<lfloor>q\<rfloor>
      else if q - of_int \<lfloor>q\<rfloor> > 1 / 2 then \<lfloor>q\<rfloor> + 1
      else if even \<lfloor>q\<rfloor> then \<lfloor>q\<rfloor> else \<lfloor>q\<rfloor> + 1)"
  by (simp add: round_half_even_def Let_def)

lemma binary64_eval:
  "binary64 x =
     (if x = 0 then 0
      else sgn x
           * of_int (round_half_even (\<bar>x\<bar> * 2 ^ scale_up 1074 \<bar>x\<bar> / 2 ^ scale_down 1024 \<bar>x\<bar>))
           * 2 ^ scale_down 1024 \<bar>x\<bar> / 2 ^ scale_up 1074 \<bar>x\<bar>)"
  by (simp add: binary64_def Let_def)

lemmas rounding_eval = binary64_eval round_half_even_eval scale_up_numeral scale_down_numeral

lemma ties_to_even: "binary64 (2 ^ 53 + 1) = 2 ^ 53" "binary64 (2 ^ 53 + 3) = 2 ^ 53 + 4"
  by (simp_all add: rounding_eval)

lemma tenth: "binary64 (1 / 10) = 3602879701896397 / 36028797018963968"
  by (simp add: rounding_eval)

lemma three_tenths: "binary64 (3 / 10) = 5404319552844595 / 18014398509481984"
  by (simp add: rounding_eval)

lemma score_A:
  "calculateWorkloadScore_in binary64
     (sample_unit ''u1'' 1 20 (3602879701896397 / 36028797018963968) 1 (Some ''w1'') assigne)
   = 2476979795053773 / 70368744177664"
  unfolding calculateWorkloadScore_in_def Let_def sample_unit_def
  by (simp add: rounding_eval)

lemma score_B:
  "calculateWorkloadScore_in binary64
     (sample_unit ''u2'' 1 20 (5404319552844595 / 18014398509481984) 1 (Some ''w1'') assigne)
   = 5010254585449677 / 140737488355328"
  unfolding calculateWorkloadScore_in_def Let_def sample_unit_def
  by (simp add: rounding_eval)

lemma sum_AB:
  "binary64 (9964214175557223 / 140737488355328) = 1245526771944653 / 17592186044416"
  by (simp add: rounding_eval)

lemma sample_unit_sel:
  "nombre_chambres (sample_unit k rooms area km level worker st) = rooms"
  "surface (sample_unit k rooms area km level worker st) = area"
  "distance_base (sample_unit k rooms area km level worker st) = km"
  "difficulte (sample_unit k rooms area km level worker st) = level"
  "agent_id (sample_unit k rooms area km level worker st) = worker"
  by (simp_all add: sample_unit_def)

lemma accumulate_A:
  "accumulate_in binary64
     (sample_unit ''u1'' 1 20 (3602879701896397 / 36028797018963968) 1 (Some ''w1'') assigne)
     (zero_score ''w1'')
   = \<lparr>ds_agent_id = ''w1'', total_chambres = 1, total_surface = 20,
      total_distance = 3602879701896397 / 36028797018963968,
      total_difficulte = 1, nombre_appartements = 1,
      score_equilibre = 2476979795053773 / 70368744177664\<rparr>"
  unfolding accumulate_in_def zero_score_def
  by (simp add: sample_unit_sel score_A rounding_eval)

lemma accumulate_B:
  "accumulate_in binary64
     (sample_unit ''u2'' 1 20 (5404319552844595 / 18014398509481984) 1 (Some ''w1'') assigne)
     \<lparr>ds_agent_id = ''w1'', total_chambres = 1, total_surface = 20,
      total_distance = 3602879701896397 / 36028797018963968,
      total_difficulte = 1, nombre_appartements = 1,
      score_equilibre = 2476979795053773 / 70368744177664\<rparr>
   = \<lparr>ds_agent_id = ''w1'', total_chambres = 2, total_surface = 40,
      total_distance = 3602879701896397 / 9007199254740992,
      total_difficulte = 2, nombre_appartements = 2,
      score_equilibre = 5010254585449677 / 140737488355328\<rparr>"
  unfolding accumulate_in_def
  by (simp add: sample_unit_sel score_B rounding_eval)

lemma rescore_AB:
  "rescore_in binary64
     \<lparr>ds_agent_id = ''w1'', total_chambres = 2, total_surface = 40,
      total_distance = 3602879701896397 / 9007199254740992,
      total_difficulte = 2, nombre_appartements = 2,
      score_equilibre = 5010254585449677 / 140737488355328\<rparr>
   = \<lparr>ds_agent_id = ''w1'', total_chambres = 2, total_surface = 40,
      total_distance = 3602879701896397 / 9007199254740992,
      total_difficulte = 2, nombre_appartements = 2,
      score_equilibre = 4982107087778611 / 70368744177664\<rparr>"
  unfolding rescore_in_def Let_def
  by (simp add: rounding_eval)

lemma scores_AB:
  "calculateAgentScores_in binary64 [sample_agent ''w1'' None]
     [sample_unit ''u1'' 1 20 (3602879701896397 / 36028797018963968) 1 (Some ''w1'') assigne,
      sample_unit ''u2'' 1 20 (5404319552844595 / 18014398509481984) 1 (Some ''w1'') assigne]
   = [(''w1'', \<lparr>ds_agent_id = ''w1'', total_chambres = 2, total_surface = 40,
                 total_distance = 3602879701896397 / 9007199254740992,
                 total_difficulte = 2, nombre_appartements = 2,
                 score_equilibre = 4982107087778611 / 70368744177664\<rparr>)]"
  by (simp add: calculateAgentScores_in_def init_scores_def count_appt_in_def Map_has_def
      sample_agent_def sample_unit_sel accumulate_A accumulate_B rescore_AB)

section \<open>Score of the totals, for every rounding\<close>

lemma exact_instance:
  "calculateWorkloadScore_in (\<lambda>x. x) = calculateWorkloadScore"
  "accumulate_in (\<lambda>x. x) = accumulate"
  "rescore_in (\<lambda>x. x) = rescore"
  by (simp_all add: fun_eq_iff calculateWorkloadScore_in_def calculateWorkloadScore_def
      accumulate_in_def accumulate_def rescore_in_def rescore_def)

lemma calculateAgentScores_exact:
  "calculateAgentScores_in (\<lambda>x. x) agents appts = calculateAgentScores agents appts"
proof -
  have "count_appt_in (\<lambda>x. x) = count_appt"
    by (auto simp: fun_eq_iff count_appt_in_def count_appt_def exact_instance
        split: option.splits)
  then show ?thesis
    by (simp add: calculateAgentScores_in_def calculateAgentScores_def exact_instance)
qed

lemma keys_count_appt_in: "map fst (count_appt_in rnd a m) = map fst m"
  by (simp add: count_appt_in_def keys_Map_mutate split: option.splits)

lemma keys_fold_count_appt_in: "map fst (fold (count_appt_in rnd) as m) = map fst m"
  by (induction as arbitrary: m) (simp_all add: keys_count_appt_in)

lemma map_of_count_appt_in:
  "map_of (count_appt_in rnd a m) k =
     (if truthy (agent_id a) \<and> agent_id a = Some k
      then map_option (accumulate_in rnd a) (map_of m k) else map_of m k)"
  by (auto simp: count_appt_in_def map_of_Map_mutate truthy_def Map_has_def split: option.splits)

lemma map_of_fold_count_appt_in:
  "map_of (fold (count_appt_in rnd) as m) k =
     map_option (fold (accumulate_in rnd) (units_counted k as)) (map_of m k)"
proof (induction as arbitrary: m)
  case Nil
  show ?case by (simp add: units_counted_def option.map_ident)
next
  case (Cons a as)
  show ?case
  proof (cases "truthy (agent_id a) \<and> agent_id a = Some k")
    case True
    then show ?thesis
      by (simp add: Cons map_of_count_appt_in units_counted_def option.map_comp o_def)
  next
    case False
    then show ?thesis
      by (auto simp add: Cons map_of_count_appt_in units_counted_def)
  qed
qed

lemma map_of_calculateAgentScores_in:
  "map_of (calculateAgentScores_in rnd agents appts) k =
     (if k \<in> ag_id ` set agents
      then Some (rescore_in rnd (fold (accumulate_in rnd) (units_counted k appts) (zero_score k)))
      else None)"
proof -
  have "map_of (calculateAgentScores_in rnd agents appts) k
          = map_option (rescore_in rnd) (map_of (fold (count_appt_in rnd) appts (init_scores agents)) k)"
    unfolding calculateAgentScores_in_def by (simp add: map_of_map)
  then show ?thesis
    by (simp add: map_of_fold_count_appt_in map_of_init_scores)
qed

lemma fold_accumulate_in_fields:
  "total_chambres (fold (accumulate_in rnd) xs s)
     = foldl (\<lambda>t a. rnd (t + nombre_chambres a)) (total_chambres s) xs"
  "total_surface (fold (accumulate_in rnd) xs s)
     = foldl (\<lambda>t a. rnd (t + surface a)) (total_surface s) xs"
  "total_distance (fold (accumulate_in rnd) xs s)
     = foldl (\<lambda>t a. rnd (t + distance_base a)) (total_distance s) xs"
  "total_difficulte (fold (accumulate_in rnd) xs s)
     = foldl (\<lambda>t a. rnd (t + difficulte a)) (total_difficulte s) xs"
  by (induction xs arbitrary: s) (simp_all add: accumulate_in_def)

text \<open>
  Claim C4, as amended.  For every entry \<open>(k, s)\<close> of the map returned by
  \<open>calculateAgentScores\<close>, whatever the rounding of the arithmetic, the final
  \<^verbatim>\<open>score_equilibre\<close> of \<open>s\<close> is the weight formula applied to the totals of \<open>s\<close>, and each
  total is the running sum, in input order, over the units counted for \<open>k\<close>: the overwrite
  of \<^verbatim>\<open>score_equilibre\<close> in the second pass leaves no trace.  In exact arithmetic this
  score is the sum of the \<open>calculateWorkloadScore\<close> of those units.
\<close>

theorem calculateAgentScores_score_of_totals:
  assumes "(k, s) \<in> set (calculateAgentScores_in rnd agents appts)"
  shows "score_equilibre s
           = rnd (rnd (rnd (rnd (total_chambres s * 10) + rnd (total_surface s * 0.5))
                       + rnd (total_distance s * 2))
                  + rnd (total_difficulte s * 15))
         \<and> total_chambres s
             = foldl (\<lambda>t a. rnd (t + nombre_chambres a)) 0 (units_counted k appts)
         \<and> total_surface s = foldl (\<lambda>t a. rnd (t + surface a)) 0 (units_counted k appts)
         \<and> total_distance s
             = foldl (\<lambda>t a. rnd (t + distance_base a)) 0 (units_counted k appts)
         \<and> total_difficulte s
             = foldl (\<lambda>t a. rnd (t + difficulte a)) 0 (units_counted k appts)
         \<and> (rnd = (\<lambda>x. x) \<longrightarrow>
              score_equilibre s
                = sum_list (map calculateWorkloadScore (units_counted k appts)))"
proof -
  have "map fst (calculateAgentScores_in rnd agents appts) = map fst (init_scores agents)"
    by (simp add: calculateAgentScores_in_def keys_fold_count_appt_in o_def split_def)
  then have d: "distinct (map fst (calculateAgentScores_in rnd agents appts))"
    by (simp add: distinct_init_scores)
  from assms d have "map_of (calculateAgentScores_in rnd agents appts) k = Some s"
    by simp
  then have s: "s = rescore_in rnd (fold (accumulate_in rnd) (units_counted k appts) (zero_score k))"
    by (simp add: map_of_calculateAgentScores_in split: if_splits)
  have totals:
    "total_chambres s = foldl (\<lambda>t a. rnd (t + nombre_chambres a)) 0 (units_counted k appts)"
    "total_surface s = foldl (\<lambda>t a. rnd (t + surface a)) 0 (units_counted k appts)"
    "total_distance s = foldl (\<lambda>t a. rnd (t + distance_base a)) 0 (units_counted k appts)"
    "total_difficulte s = foldl (\<lambda>t a. rnd (t + difficulte a)) 0 (units_counted k appts)"
    unfolding s by (simp_all add: rescore_in_def fold_accumulate_in_fields zero_score_def)
  have score: "score_equilibre s
           = rnd (rnd (rnd (rnd (total_chambres s * 10) + rnd (total_surface s * 0.5))
                       + rnd (total_distance s * 2))
                  + rnd (total_difficulte s * 15))"
    unfolding s by (simp add: rescore_in_def)
  have exact: "score_equilibre s = sum_list (map calculateWorkloadScore (units_counted k appts))"
    if "rnd = (\<lambda>x. x)"
    unfolding score totals that
    by (simp add: foldl_add_sum_list sum_list_workload)
  from score totals exact show ?thesis by simp
qed

theorem calculateAgentScores_score_of_totals_witness:
  "(''w1'', \<lparr>ds_agent_id = ''w1'', total_chambres = 3, total_surface = 80, total_distance = 7,
             total_difficulte = 4, nombre_appartements = 2, score_equilibre = 144\<rparr>)
     \<in> set (calculateAgentScores_in (\<lambda>x. x) [sample_agent ''w1'' None, sample_agent ''w2'' None]
              [sample_unit ''u1'' 2 50 5 3 (Some ''w1'') assigne,
               sample_unit ''u2'' 1 30 2 1 (Some ''w1'') assigne,
               sample_unit ''u3'' 4 90 9 5 (Some ''w9'') assigne,
               sample_unit ''u4'' 1 20 1 1 None disponible])
   \<and> sum_list (map calculateWorkloadScore (units_counted ''w1''
              [sample_unit ''u1'' 2 50 5 3 (Some ''w1'') assigne,
               sample_unit ''u2'' 1 30 2 1 (Some ''w1'') assigne,
               sample_unit ''u3'' 4 90 9 5 (Some ''w9'') assigne,
               sample_unit ''u4'' 1 20 1 1 None disponible])) = 144"
proof -
  have m: "(''w1'', \<lparr>ds_agent_id = ''w1'', total_chambres = 3, total_surface = 80,
             total_distance = 7, total_difficulte = 4, nombre_appartements = 2,
             score_equilibre = 144\<rparr>)
     \<in> set (calculateAgentScores_in (\<lambda>x. x) [sample_agent ''w1'' None, sample_agent ''w2'' None]
              [sample_unit ''u1'' 2 50 5 3 (Some ''w1'') assigne,
               sample_unit ''u2'' 1 30 2 1 (Some ''w1'') assigne,
               sample_unit ''u3'' 4 90 9 5 (Some ''w9'') assigne,
               sample_unit ''u4'' 1 20 1 1 None disponible])"
    by (simp add: calculateAgentScores_exact calculateAgentScores_def init_scores_def
        count_appt_def Map_has_def
        accumulate_def rescore_def zero_score_def sample_agent_def sample_unit_def)
  from calculateAgentScores_score_of_totals [OF m] m show ?thesis by simp
qed

text \<open>
  Claim C4 as stated makes the final score equal to the sum of the units' scores.  In
  double precision, one worker with the two units \<open>{1, 20, 0.1, 1}\<close> and
  \<open>{1, 20, 0.3, 1}\<close> (rooms, area, distance, difficulty): the score of the totals is the
  double 70.8, the units' scores are the doubles 35.2 and 35.6, their exact sum is another
  number and their rounded sum is the next double, 70.80000000000001.
\<close>

theorem calculateAgentScores_rounding_counterexample:
  "map (\<lambda>p. score_equilibre (snd p))
     (calculateAgentScores_in binary64 [sample_agent ''w1'' None]
        [sample_unit ''u1'' 1 20 (binary64 (1 / 10)) 1 (Some ''w1'') assigne,
         sample_unit ''u2'' 1 20 (binary64 (3 / 10)) 1 (Some ''w1'') assigne])
     = [4982107087778611 / 70368744177664]
   \<and> units_counted ''w1''
        [sample_unit ''u1'' 1 20 (binary64 (1 / 10)) 1 (Some ''w1'') assigne,
         sample_unit ''u2'' 1 20 (binary64 (3 / 10)) 1 (Some ''w1'') assigne]
     = [sample_unit ''u1'' 1 20 (binary64 (1 / 10)) 1 (Some ''w1'') assigne,
        sample_unit ''u2'' 1 20 (binary64 (3 / 10)) 1 (Some ''w1'') assigne]
   \<and> binary64 (calculateWorkloadScore_in binary64
                  (sample_unit ''u1'' 1 20 (binary64 (1 / 10)) 1 (Some ''w1'') assigne)
               + calculateWorkloadScore_in binary64
                  (sample_unit ''u2'' 1 20 (binary64 (3 / 10)) 1 (Some ''w1'') assigne))
     = 1245526771944653 / 17592186044416
   \<and> calculateWorkloadScore_in binary64
        (sample_unit ''u1'' 1 20 (binary64 (1 / 10)) 1 (Some ''w1'') assigne)
      + calculateWorkloadScore_in binary64
        (sample_unit ''u2'' 1 20 (binary64 (3 / 10)) 1 (Some ''w1'') assigne)
     = 9964214175557223 / 140737488355328
   \<and> (4982107087778611 / 70368744177664 :: real) \<noteq> 1245526771944653 / 17592186044416
   \<and> (4982107087778611 / 70368744177664 :: real) \<noteq> 9964214175557223 / 140737488355328"
  unfolding tenth three_tenths
  by (simp add: scores_AB score_A score_B sum_AB units_counted_def truthy_def sample_unit_sel)

section \<open>calculateEquilibreGlobal on a non-positive mean\<close>

lemma foldl_add_plain: "foldl (\<lambda>sum val. sum + val) a xs = a + sum_list xs"
  for a :: real
  by (induction xs arbitrary: a) simp_all

text \<open>
  Claim C8 as stated makes the result 0 when the mean is non-positive.  Two workers with
  balance score 0 (nothing assigned yet): the mean is 0 and the code returns 100.
\<close>

theorem calculateEquilibreGlobal_counterexample:
  "sum_list (map (\<lambda>p. score_equilibre (snd p))
      [(''w1'', sample_score ''w1'' 0), (''w2'', sample_score ''w2'' 0)])
     / real (length [(''w1'', sample_score ''w1'' 0), (''w2'', sample_score ''w2'' 0)]) \<le> 0
   \<and> calculateEquilibreGlobal [(''w1'', sample_score ''w1'' 0), (''w2'', sample_score ''w2'' 0)] = 100"
  by (simp add: calculateEquilibreGlobal_def Let_def Map_values_def sample_score_def zero_score_def)

text \<open>
  Claim C8, as amended.  For every non-empty set of summaries whose balance scores have a
  non-positive arithmetic mean, \<open>calculateEquilibreGlobal\<close> returns 100: the coefficient of
  variation is taken to be 0 unless the mean is positive.
\<close>

theorem calculateEquilibreGlobal_nonpositive_mean:
  assumes "scores \<noteq> []"
    and "sum_list (map (\<lambda>p. score_equilibre (snd p)) scores) / real (length scores) \<le> 0"
  shows "calculateEquilibreGlobal scores = 100"
  using assms
  by (simp add: calculateEquilibreGlobal_def Let_def foldl_add_plain Map_values_def o_def)

theorem calculateEquilibreGlobal_nonpositive_mean_witness:
  "calculateEquilibreGlobal [(''w1'', sample_score ''w1'' 0)] = 100"
  using calculateEquilibreGlobal_nonpositive_mean [of "[(''w1'', sample_score ''w1'' 0)]"]
  by (simp add: sample_score_def zero_score_def)

section \<open>Properties of buildAgentRoute\<close>

lemma route_loop_Nil: "route_loop [] cp rank acc steps = (acc, steps)"
  by (subst route_loop.simps) simp

lemma route_loop_step:
  "remaining \<noteq> [] \<Longrightarrow>
   route_loop remaining cp rank acc steps =
     route_loop
       (take (fst (nearest cp remaining)) remaining @ drop (Suc (fst (nearest cp remaining))) remaining)
       (Some (point_of (remaining ! fst (nearest cp remaining)))) (rank + 1)
       (acc + leg cp (point_of (remaining ! fst (nearest cp remaining))))
       (steps @ [\<lparr>appartement = remaining ! fst (nearest cp remaining), ordre = rank,
                  distanceDepuisPrecedent = leg cp (point_of (remaining ! fst (nearest cp remaining)))\<rparr>])"
  by (subst route_loop.simps) (simp add: Let_def)

lemma route_loop_total:
  "acc = sum_list (map distanceDepuisPrecedent steps) \<Longrightarrow>
   fst (route_loop remaining cp rank acc steps)
     = sum_list (map distanceDepuisPrecedent (snd (route_loop remaining cp rank acc steps)))"
proof (induction remaining cp rank acc steps rule: route_loop.induct)
  case (1 remaining cp rank acc steps)
  show ?case
  proof (cases "remaining = []")
    case True
    with "1.prems" show ?thesis by (simp add: route_loop_Nil)
  next
    case False
    then have pos: "0 < length remaining" by simp
    show ?thesis
      unfolding route_loop_step [OF False]
      by (rule "1.IH" [OF pos refl refl refl]) (simp add: "1.prems")
  qed
qed

lemma mset_splice:
  assumes "i < length xs"
  shows "mset xs = add_mset (xs ! i) (mset (take i xs) + mset (drop (Suc i) xs))"
proof -
  from assms have "xs = take i xs @ xs ! i # drop (Suc i) xs"
    by (rule id_take_nth_drop)
  then have "mset xs = mset (take i xs @ xs ! i # drop (Suc i) xs)" by simp
  then show ?thesis by simp
qed

lemma route_loop_mset:
  "mset (map appartement (snd (route_loop remaining cp rank acc steps)))
     = mset (map appartement steps) + mset remaining"
proof (induction remaining cp rank acc steps rule: route_loop.induct)
  case (1 remaining cp rank acc steps)
  show ?case
  proof (cases "remaining = []")
    case True
    then show ?thesis by (simp add: route_loop_Nil)
  next
    case False
    then have pos: "0 < length remaining" by simp
    note ih = "1.IH" [OF pos refl refl refl]
    note sp = mset_splice [OF nearest_in_range [OF False, of cp]]
    show ?thesis
      unfolding route_loop_step [OF False] ih
      by (subst sp) simp
  qed
qed





text \<open>
  In exact arithmetic the total distance of a route is the sum of its legs; in any
  arithmetic the number of steps is the number of input units with both coordinates
  non-null, and the units of the steps are those units, each as often as it occurs.
\<close>

lemma buildAgentRoute_total_and_length:
  "totalDistance (buildAgentRoute aid appartements base)
     = sum_list (map distanceDepuisPrecedent (etapes (buildAgentRoute aid appartements base)))
   \<and> length (etapes (buildAgentRoute aid appartements base))
     = length (filter (\<lambda>a. latitude a \<noteq> None \<and> longitude a \<noteq> None) appartements)
   \<and> mset (map appartement (etapes (buildAgentRoute aid appartements base)))
     = mset (filter (\<lambda>a. latitude a \<noteq> None \<and> longitude a \<noteq> None) appartements)"
proof -
  let ?v = "visitables appartements"
  have v: "?v = filter (\<lambda>a. latitude a \<noteq> None \<and> longitude a \<noteq> None) appartements"
    by (simp add: visitables_def)
  have t: "fst (route_loop ?v base 1 0 [])
             = sum_list (map distanceDepuisPrecedent (snd (route_loop ?v base 1 0 [])))"
    by (rule route_loop_total) simp
  have m: "mset (map appartement (snd (route_loop ?v base 1 0 []))) = mset ?v"
    using route_loop_mset [of ?v base 1 0 "[]"] by simp
  from m have "size (mset (map appartement (snd (route_loop ?v base 1 0 [])))) = size (mset ?v)"
    by simp
  then have l: "length (snd (route_loop ?v base 1 0 [])) = length ?v" by simp
  show ?thesis
    unfolding v [symmetric]
    using t m l by (simp add: buildAgentRoute_def Let_def)
qed












section \<open>Properties of handleAutoDistribute\<close>

lemma overflow_million: "\<bar>r\<bar> \<le> 1000000 \<Longrightarrow> overflow r = Fin r"
  by (intro overflow_small) (rule order_trans [of _ "2 ^ 20"], simp_all)

lemma falsy_iff: "(\<not> truthy v) = (v = None \<or> v = Some [])"
  by (cases v) (simp_all add: truthy_def)

lemma simulate_step_units:
  "fst ` set (snd (simulate_step agents cs appt st)) \<subseteq> insert appt (fst ` set (snd st))"
  by (auto simp: simulate_step_def Let_def split: option.splits)

lemma simulate_fold_units:
  "fst ` set (snd (fold (simulate_step agents cs) xs st)) \<subseteq> set xs \<union> fst ` set (snd st)"
proof (induction xs arbitrary: st)
  case Nil
  show ?case by simp
next
  case (Cons x xs)
  from Cons.IH [of "simulate_step agents cs x st"] simulate_step_units [of agents cs x st]
  show ?case by auto
qed

text \<open>
  Claim C2.  The units come from the table \<^verbatim>\<open>appartements\<close>, whose \<^verbatim>\<open>agent_id\<close> is a uuid
  reference or null, never the empty string.  For every such unit list and every worker
  list, every pairing that \<open>handleAutoDistribute\<close> hands to its commit loop is for a unit of
  the input whose assigned-worker reference was null and whose status was not inactive.
\<close>

theorem handleAutoDistribute_pairs_eligible:
  assumes "\<forall>appt\<in>set appartements. agent_id appt \<noteq> Some []"
    and "handleAutoDistribute h agents appartements scoreMap = (Assignments pairs, h')"
  shows "fst ` set pairs
           \<subseteq> {appt \<in> set appartements. agent_id appt = None \<and> statut appt \<noteq> inactif}"
proof -
  let ?sorted = "sort_key (\<lambda>a. - calculateWorkloadScore a) (unassigned_of appartements)"
  from assms(2) have "pairs = snd (fold (simulate_step agents scoreMap) ?sorted (h, []))"
    by (simp add: handleAutoDistribute_def Let_def split: if_splits)
  then have "fst ` set pairs \<subseteq> set ?sorted"
    using simulate_fold_units [of agents scoreMap ?sorted "(h, [])"] by simp
  also have "set ?sorted = set (unassigned_of appartements)"
    by simp
  also have "\<dots> = {appt \<in> set appartements. agent_id appt = None \<and> statut appt \<noteq> inactif}"
    using assms(1) by (auto simp: unassigned_of_def falsy_iff)
  finally show ?thesis .
qed

theorem handleAutoDistribute_pairs_eligible_witness:
  "fst ` set [(sample_unit ''u4'' 4 90 9 5 None disponible, ''w1''),
              (sample_unit ''u1'' 2 50 5 3 None disponible, ''w2'')]
     \<subseteq> {appt \<in> set [sample_unit ''u1'' 2 50 5 3 None disponible,
                      sample_unit ''u2'' 1 30 2 1 None inactif,
                      sample_unit ''u3'' 4 90 9 5 (Some ''w1'') assigne,
                      sample_unit ''u4'' 4 90 9 5 None disponible].
          agent_id appt = None \<and> statut appt \<noteq> inactif}"
proof -
  let ?us = "[sample_unit ''u1'' 2 50 5 3 None disponible,
              sample_unit ''u2'' 1 30 2 1 None inactif,
              sample_unit ''u3'' 4 90 9 5 (Some ''w1'') assigne,
              sample_unit ''u4'' 4 90 9 5 None disponible]"
  have h1: "\<forall>appt\<in>set ?us. agent_id appt \<noteq> Some []"
    by (simp add: sample_unit_def)
  have h2: "handleAutoDistribute idle_store [sample_agent ''w1'' None, sample_agent ''w2'' None]
          ?us [(''w1'', 0), (''w2'', 1)]
        = (Assignments [(sample_unit ''u4'' 4 90 9 5 None disponible, ''w1''),
                        (sample_unit ''u1'' 2 50 5 3 None disponible, ''w2'')],
           idle_store
             (0 := add_unit (sample_unit ''u4'' 4 90 9 5 None disponible) (zero_score []),
              1 := add_unit (sample_unit ''u1'' 2 50 5 3 None disponible) (zero_score [])))"
    by (simp add: handleAutoDistribute_def unassigned_of_def truthy_def simulate_step_def
        suggestOptimalAgent_def suggest_step_def scoreDiff_def avgScore_def agentScore_def
        Map_values_def deref_def nsub_def overflow_million calculateWorkloadScore_def
        add_unit_def idle_store_def zero_score_def Let_def sample_unit_def sample_agent_def
        fun_upd_def)
  from handleAutoDistribute_pairs_eligible [OF h1 h2] show ?thesis .
qed




text \<open>
  Claim C7 at a concrete input: one worker \<open>w1\<close> whose summary object is all zero, one
  unassigned unit.  After the simulation pass the object that the caller's \<^verbatim>\<open>scoreMap\<close>
  holds for \<open>w1\<close> carries the unit: \<^verbatim>\<open>new Map(scoreMap)\<close> copied the references, not the
  objects.
\<close>

theorem handleAutoDistribute_mutates_scoreMap:
  "deref idle_store [(''w1'', 0)] = [(''w1'', zero_score [])]
   \<and> deref (snd (handleAutoDistribute idle_store [sample_agent ''w1'' None]
                   [sample_unit ''u1'' 2 50 5 3 None disponible] [(''w1'', 0)])) [(''w1'', 0)]
     = [(''w1'', \<lparr>ds_agent_id = [], total_chambres = 2, total_surface = 50, total_distance = 5,
                  total_difficulte = 3, nombre_appartements = 1, score_equilibre = 100\<rparr>)]"
  by (simp add: handleAutoDistribute_def unassigned_of_def truthy_def simulate_step_def
      suggestOptimalAgent_def suggest_step_def scoreDiff_def avgScore_def agentScore_def
      Map_values_def nsub_def overflow_million calculateWorkloadScore_def
      Let_def sample_unit_def sample_agent_def
      deref_def idle_store_def add_unit_def zero_score_def)

end
